theory Spec2Isabelle
  imports Main
begin

section \<open>Data model of main.go\<close>

text \<open>
  Go strings are byte sequences; they are modelled as \<open>string\<close> (lists of 8-bit
  characters).  \<open>time.Time\<close> values are modelled as integers (nanoseconds since the
  epoch); the current time is an explicit argument wherever the source calls
  \<open>time.Now()\<close>.  Log output is not part of the model.
\<close>

type_synonym time = int

text \<open>The struct \<open>Config\<close> (main.go, lines 16-24).\<close>

record Config =
  AllowedDomains :: "string list"
  SMTPPort :: string
  HTTPPort :: string
  HTTPSPort :: string
  CertFile :: string
  KeyFile :: string
  EnableHTTPS :: bool

text \<open>
  The struct \<open>mailContent\<close> (lines 27-34).  The fields \<open>from\<close> and \<open>to\<close> are
  named \<open>mail_from\<close> and \<open>mail_to\<close> here, both being reserved words of the prover.
\<close>

record mailContent =
  mail_from :: string
  mail_to :: string
  title :: string
  TextContent :: string
  HtmlContent :: string
  receivedAt :: time

text \<open>
  The package-level variables \<open>mailBox\<close> and \<open>config\<close> (lines 36-40).  A Go map is
  a partial function; a slice held in the map is the list of its elements.  The mutex
  \<open>mu\<close> has no field: a critical section is one atomic step of the model.
\<close>

type_synonym mailbox_store = "string \<rightharpoonup> mailContent list"

record globals =
  mailBox :: mailbox_store
  config :: Config

text \<open>
  Indexing a Go map at a missing key yields the zero value of the element type, here
  the nil slice, which has length 0 and to which \<open>append\<close> may be applied.
\<close>

definition map_index :: "mailbox_store \<Rightarrow> string \<Rightarrow> mailContent list" where
  "map_index m k = (case m k of None \<Rightarrow> [] | Some ms \<Rightarrow> ms)"

section \<open>Library functions used by the source\<close>

text \<open>
  \<open>strings.Trim(s, cutset)\<close>: all leading and all trailing bytes of \<open>s\<close> that occur
  in \<open>cutset\<close> are removed (left first, then right).
\<close>

definition strings_TrimLeft :: "string \<Rightarrow> string \<Rightarrow> string" where
  "strings_TrimLeft s cutset = dropWhile (\<lambda>c. c \<in> set cutset) s"

definition strings_TrimRight :: "string \<Rightarrow> string \<Rightarrow> string" where
  "strings_TrimRight s cutset = rev (dropWhile (\<lambda>c. c \<in> set cutset) (rev s))"

definition strings_Trim :: "string \<Rightarrow> string \<Rightarrow> string" where
  "strings_Trim s cutset = strings_TrimRight (strings_TrimLeft s cutset) cutset"

text \<open>
  \<open>strings.Split(s, sep)\<close> for a one-byte separator: the pieces of \<open>s\<close> between the
  occurrences of the separator, one more piece than there are separators; the empty
  string splits into the single piece \<open>""\<close>.
\<close>

fun strings_Split :: "string \<Rightarrow> char \<Rightarrow> string list" where
  "strings_Split [] sep = [[]]"
| "strings_Split (c # cs) sep =
     (if c = sep then [] # strings_Split cs sep
      else (case strings_Split cs sep of
              [] \<Rightarrow> [[c]]
            | piece # pieces \<Rightarrow> (c # piece) # pieces))"

text \<open>
  The process environment is a partial map from variable names to values;
  \<open>os.Getenv\<close> returns the empty string for a variable that is not set.
\<close>

type_synonym environ = "string \<rightharpoonup> string"

definition os_Getenv :: "environ \<Rightarrow> string \<Rightarrow> string" where
  "os_Getenv env key = (case env key of None \<Rightarrow> [] | Some v \<Rightarrow> v)"

section \<open>Configuration loading\<close>

text \<open>\<open>getEnvOrDefault\<close> (lines 61-66).\<close>

definition getEnvOrDefault :: "environ \<Rightarrow> string \<Rightarrow> string \<Rightarrow> string" where
  "getEnvOrDefault env key defaultValue =
     (let v = os_Getenv env key in if v \<noteq> [] then v else defaultValue)"

text \<open>
  \<open>initConfig\<close> (lines 43-59).  \<open>log.Fatal\<close> prints its message and ends the process
  with exit status 1; that outcome is the value \<open>Inl LogFatal\<close>.
\<close>

datatype abort = LogFatal

definition initConfig :: "environ \<Rightarrow> abort + Config" where
  "initConfig env =
     (let cfg = \<lparr> AllowedDomains = strings_Split (os_Getenv env ''ALLOWED_DOMAINS'') CHR '','',
                  SMTPPort = getEnvOrDefault env ''SMTP_PORT'' ''25'',
                  HTTPPort = getEnvOrDefault env ''HTTP_PORT'' ''80'',
                  HTTPSPort = getEnvOrDefault env ''HTTPS_PORT'' ''443'',
                  CertFile = getEnvOrDefault env ''CERT_FILE'' ''./certs/server.pem'',
                  KeyFile = getEnvOrDefault env ''KEY_FILE'' ''./certs/server.key'',
                  EnableHTTPS = (os_Getenv env ''ENABLE_HTTPS'' = ''true'') \<rparr>
      in (case AllowedDomains cfg of
            [] \<Rightarrow> Inl LogFatal
          | d # ds \<Rightarrow> if d = [] then Inl LogFatal else Inr cfg))"

section \<open>Ingestion: the SMTP handler\<close>

text \<open>
  What \<open>handler\<close> reads from its \<open>smtpsrv.Context\<close>: the rendered envelope addresses
  \<open>c.To().String()\<close> and \<open>c.From().String()\<close>, and the result of \<open>c.Parse()\<close>, which
  is an error or a parsed message of which the handler uses three fields.
\<close>

datatype error = Error string

record Email =
  Subject :: string
  TextBody :: string
  HTMLBody :: string

record Context =
  To_String :: string
  From_String :: string
  Parse :: "error + Email"

text \<open>The critical section of \<open>handler\<close> (lines 86-92), run under the write lock.\<close>

definition store_append :: "string \<Rightarrow> mailContent \<Rightarrow> mailbox_store \<Rightarrow> mailbox_store" where
  "store_append to content mb =
     (let mb1 = (if mb to = None then mb(to \<mapsto> []) else mb)
      in mb1(to \<mapsto> map_index mb1 to @ [content]))"

text \<open>
  \<open>handler\<close> (lines 68-96): the returned \<open>error option\<close> is the Go return value
  (\<open>None\<close> is \<open>nil\<close>).
\<close>

definition handler :: "Context \<Rightarrow> time \<Rightarrow> globals \<Rightarrow> error option \<times> globals" where
  "handler c now g =
     (let to = strings_Trim (To_String c) ''<>'';
          from = strings_Trim (From_String c) ''<>''
      in (case Parse c of
            Inl err \<Rightarrow> (Some err, g)
          | Inr msg \<Rightarrow>
              (let content = \<lparr> mail_from = from, mail_to = to, title = Subject msg,
                               TextContent = TextBody msg, HtmlContent = HTMLBody msg,
                               receivedAt = now \<rparr>
               in (None, g\<lparr> mailBox := store_append to content (mailBox g) \<rparr>))))"

section \<open>Retrieval: the HTTP routes\<close>

text \<open>
  A response is the status code and the JSON value handed to \<open>c.JSON\<close>.  \<open>gin.H\<close>
  is a Go map from field names to values.
\<close>

datatype json = JString string | JArray "json list" | JObject "string \<rightharpoonup> json"

record response =
  status :: nat
  body :: json

text \<open>The body text of the 201 response (line 159), as its UTF-8 bytes.\<close>

definition no_mail_text :: string where
  "no_mail_text =
     [CHR 0xE6, CHR 0xB2, CHR 0xA1, CHR 0xE6, CHR 0x9C, CHR 0x89,
      CHR 0xE9, CHR 0x82, CHR 0xAE, CHR 0xE4, CHR 0xBB, CHR 0xB6]"

definition no_mail_response :: response where
  "no_mail_response = \<lparr> status = 201, body = JObject [''mail'' \<mapsto> JString no_mail_text] \<rparr>"

text \<open>The response of lines 171-178, built from the local copy \<open>tmpMail\<close>.\<close>

definition mail_response :: "mailContent \<Rightarrow> response" where
  "mail_response tmpMail =
     \<lparr> status = 200,
       body = JObject [''mail'' \<mapsto> JObject [''from'' \<mapsto> JString (mail_from tmpMail),
                                               ''title'' \<mapsto> JString (title tmpMail),
                                               ''TextContent'' \<mapsto> JString (TextContent tmpMail),
                                               ''HtmlContent'' \<mapsto> JString (HtmlContent tmpMail)]] \<rparr>"

text \<open>
  \<open>handleGetMail\<close> has two critical sections.  The first (lines 155-165, read lock)
  either answers 201 or leaves the local variables \<open>mails\<close>, \<open>lastIndex\<close> and
  \<open>tmpMail\<close>.  The index \<open>lastIndex\<close> is in range because \<open>mails\<close> is not empty
  there.
\<close>

datatype observed = Observed (obs_mails: "mailContent list") (obs_lastIndex: nat)
  (obs_tmpMail: mailContent)

definition pop_read_section :: "string \<Rightarrow> mailbox_store \<Rightarrow> response + observed" where
  "pop_read_section mailHead mb =
     (case mb mailHead of
        None \<Rightarrow> Inl no_mail_response
      | Some mails \<Rightarrow>
          if length mails = 0 then Inl no_mail_response
          else (let lastIndex = length mails - 1
                in Inr (Observed mails lastIndex (mails ! lastIndex))))"

text \<open>
  The second critical section (lines 167-169, write lock) stores the slice
  \<open>mails[:lastIndex]\<close> of the first section's local variable.
\<close>

definition pop_write_section :: "string \<Rightarrow> observed \<Rightarrow> mailbox_store \<Rightarrow> mailbox_store" where
  "pop_write_section mailHead ob mb = mb(mailHead \<mapsto> take (obs_lastIndex ob) (obs_mails ob))"

text \<open>\<open>handleGetMail\<close> (lines 152-179) when no other goroutine runs in between.\<close>

definition handleGetMail :: "string \<Rightarrow> globals \<Rightarrow> response \<times> globals" where
  "handleGetMail mailHead g =
     (case pop_read_section mailHead (mailBox g) of
        Inl r \<Rightarrow> (r, g)
      | Inr ob \<Rightarrow>
          (mail_response (obs_tmpMail ob),
           g\<lparr> mailBox := pop_write_section mailHead ob (mailBox g) \<rparr>))"

text \<open>The route \<open>/getAllowedDomains\<close> (lines 145-147).\<close>

definition getAllowedDomains :: "globals \<Rightarrow> response" where
  "getAllowedDomains g =
     \<lparr> status = 200,
       body = JObject [''allowedDomains'' \<mapsto> JArray (map JString (AllowedDomains (config g)))] \<rparr>"

section \<open>Purge\<close>

text \<open>\<open>clearMailBox\<close> (lines 201-206).\<close>

definition clearMailBox :: "globals \<Rightarrow> globals" where
  "clearMailBox g = g\<lparr> mailBox := Map.empty \<rparr>"

section \<open>The public interface as a sequence of requests\<close>

text \<open>
  The ways the outside world reaches the store: a mail delivered to \<open>handler\<close> (at a
  given time), the two HTTP routes of \<open>setupRoutes\<close> (lines 144-150), and the
  scheduled call of \<open>clearMailBox\<close>.  Each request is served to completion before the
  next one starts.
\<close>

datatype request =
  Deliver Context time
| GetMail string
| GetAllowedDomains
| MidnightPurge

datatype reply =
  HandlerReturned "error option"
| HTTP response
| Purged

fun serve :: "request \<Rightarrow> globals \<Rightarrow> reply \<times> globals" where
  "serve (Deliver c now) g = (let (e, g') = handler c now g in (HandlerReturned e, g'))"
| "serve (GetMail mailHead) g = (let (r, g') = handleGetMail mailHead g in (HTTP r, g'))"
| "serve GetAllowedDomains g = (HTTP (getAllowedDomains g), g)"
| "serve MidnightPurge g = (Purged, clearMailBox g)"

fun serve_all :: "request list \<Rightarrow> globals \<Rightarrow> reply list \<times> globals" where
  "serve_all [] g = ([], g)"
| "serve_all (rq # rqs) g =
     (let (rp, g') = serve rq g; (rps, g'') = serve_all rqs g' in (rp # rps, g''))"


section \<open>Interleaved calls of \<open>handleGetMail\<close>\<close>

text \<open>
  Between its two critical sections a call of \<open>handleGetMail\<close> holds no lock, so
  sections of other calls may run there.  A call is waiting for its first section,
  holds the local variables left by it, or has answered.  The mutex makes each section
  atomic; a schedule names, step by step, the call whose next section runs.  Only calls
  of \<open>handleGetMail\<close> run here, and they never write to a slice's backing array, so a
  held slice is the list of elements it had when it was read.
\<close>

datatype pop_call =
  Waiting string
| Holding string observed
| Answered response

fun pop_step :: "pop_call \<Rightarrow> mailbox_store \<Rightarrow> pop_call \<times> mailbox_store" where
  "pop_step (Waiting mailHead) mb =
     (case pop_read_section mailHead mb of
        Inl r \<Rightarrow> (Answered r, mb)
      | Inr ob \<Rightarrow> (Holding mailHead ob, mb))"
| "pop_step (Holding mailHead ob) mb =
     (Answered (mail_response (obs_tmpMail ob)), pop_write_section mailHead ob mb)"
| "pop_step (Answered r) mb = (Answered r, mb)"

fun run_schedule :: "nat list \<Rightarrow> pop_call list \<times> mailbox_store \<Rightarrow> pop_call list \<times> mailbox_store" where
  "run_schedule [] s = s"
| "run_schedule (i # sched) (calls, mb) =
     (if i < length calls
      then (let (c', mb') = pop_step (calls ! i) mb in run_schedule sched (calls[i := c'], mb'))
      else run_schedule sched (calls, mb))"

text \<open>
  \<open>clearMailBox\<close> is called from the goroutine of \<open>scheduleDailyMidnightTask\<close>
  (lines 181-199) while requests are being served, so its critical section may also run
  between the two sections of a call of \<open>handleGetMail\<close>.  It assigns a new map to
  \<open>mailBox\<close> and writes to no slice, so a held slice still is the list of elements
  it had when it was read.  A step of such a schedule runs the next section of one call
  or the purge.
\<close>

datatype sched_step =
  RunCall nat
| RunPurge

fun run_with_purge :: "sched_step list \<Rightarrow> pop_call list \<times> globals \<Rightarrow> pop_call list \<times> globals" where
  "run_with_purge [] s = s"
| "run_with_purge (RunCall i # sched) (calls, g) =
     (if i < length calls
      then (let (c', mb') = pop_step (calls ! i) (mailBox g)
            in run_with_purge sched (calls[i := c'], g\<lparr> mailBox := mb' \<rparr>))
      else run_with_purge sched (calls, g))"
| "run_with_purge (RunPurge # sched) (calls, g) = run_with_purge sched (calls, clearMailBox g)"

section \<open>The recipient key as the specification words it\<close>

text \<open>
  The specification's \<open>recipientKey\<close>: the local-part of the recipient address, that
  is, what precedes the first \<open>@\<close> once the angle brackets are stripped.
\<close>

definition spec_recipientKey :: "string \<Rightarrow> string" where
  "spec_recipientKey recipient =
     takeWhile (\<lambda>c. c \<noteq> CHR ''@'') (strings_Trim recipient ''<>'')"

section \<open>Example values\<close>

definition example_config :: Config where
  "example_config =
     \<lparr> AllowedDomains = [''example.com''], SMTPPort = ''25'', HTTPPort = ''80'',
       HTTPSPort = ''443'', CertFile = ''./certs/server.pem'', KeyFile = ''./certs/server.key'',
       EnableHTTPS = False \<rparr>"

definition example_start :: globals where
  "example_start = \<lparr> mailBox = Map.empty, config = example_config \<rparr>"

definition example_context :: Context where
  "example_context =
     \<lparr> To_String = ''<alice@example.com>'', From_String = ''<bob@example.org>'',
       Parse = Inr \<lparr> Subject = ''Welcome'', TextBody = ''hello'', HTMLBody = [] \<rparr> \<rparr>"

definition example_broken_context :: Context where
  "example_broken_context =
     \<lparr> To_String = ''<alice@example.com>'', From_String = ''<bob@example.org>'',
       Parse = Inl (Error ''malformed MIME header'') \<rparr>"

definition example_mail :: "string \<Rightarrow> mailContent" where
  "example_mail subject =
     \<lparr> mail_from = ''bob@example.org'', mail_to = ''alice@example.com'', title = subject,
       TextContent = ''hello'', HtmlContent = [], receivedAt = 0 \<rparr>"

section \<open>Basic facts about the store operations\<close>

lemma store_append_eq: "store_append k m mb = mb(k \<mapsto> map_index mb k @ [m])"
  by (simp add: store_append_def map_index_def Let_def)

lemma map_index_upd: "map_index (mb(k \<mapsto> ms)) k' = (if k' = k then ms else map_index mb k')"
  by (simp add: map_index_def)

lemma pop_read_empty: "map_index mb k = [] \<Longrightarrow> pop_read_section k mb = Inl no_mail_response"
  by (simp add: pop_read_section_def map_index_def split: option.splits)

lemma pop_read_last:
  "mb k = Some (ms @ [m]) \<Longrightarrow> pop_read_section k mb = Inr (Observed (ms @ [m]) (length ms) m)"
  by (simp add: pop_read_section_def Let_def)

lemma handleGetMail_empty:
  "map_index (mailBox g) k = [] \<Longrightarrow> handleGetMail k g = (no_mail_response, g)"
  by (simp add: handleGetMail_def pop_read_empty)

lemma handleGetMail_last:
  "mailBox g k = Some (ms @ [m]) \<Longrightarrow>
   handleGetMail k g = (mail_response m, g\<lparr> mailBox := (mailBox g)(k \<mapsto> ms) \<rparr>)"
  by (simp add: handleGetMail_def pop_read_last pop_write_section_def)

lemma handleGetMail_cases:
  "handleGetMail k g =
     (if map_index (mailBox g) k = [] then (no_mail_response, g)
      else (mail_response (last (map_index (mailBox g) k)),
            g\<lparr> mailBox := (mailBox g)(k \<mapsto> butlast (map_index (mailBox g) k)) \<rparr>))"
proof (cases "map_index (mailBox g) k = []")
  case True
  then show ?thesis by (simp add: handleGetMail_empty)
next
  case False
  then obtain ms where ms: "mailBox g k = Some ms" "ms \<noteq> []"
    by (auto simp: map_index_def split: option.splits)
  then have "mailBox g k = Some (butlast ms @ [last ms])" by simp
  from handleGetMail_last [OF this] ms show ?thesis by (simp add: map_index_def)
qed

lemma trim_alice: "strings_Trim ''<alice@example.com>'' ''<>'' = ''alice@example.com''"
  by (simp add: strings_Trim_def strings_TrimLeft_def strings_TrimRight_def)

lemma trim_bob: "strings_Trim ''<bob@example.org>'' ''<>'' = ''bob@example.org''"
  by (simp add: strings_Trim_def strings_TrimLeft_def strings_TrimRight_def)


lemma map_index_redact:
  "map_index (map_option (map f) \<circ> mb) k = map f (map_index mb k)"
  by (simp add: map_index_def split: option.splits)

lemma mail_response_redact:
  "mail_response (m\<lparr> mail_to := t, receivedAt := r \<rparr>) = mail_response m"
  by (simp add: mail_response_def)

section \<open>Basic facts about configuration loading\<close>

lemma strings_Split_not_Nil: "strings_Split s sep \<noteq> []"
  by (induction s) (auto split: list.splits)

lemma strings_Split_first_empty:
  "(\<exists>ds. strings_Split s sep = [] # ds) \<longleftrightarrow> (s = [] \<or> (\<exists>rest. s = sep # rest))"
  by (cases s) (auto split: list.splits simp: strings_Split_not_Nil)

lemma initConfig_fatal_iff:
  "initConfig env = Inl LogFatal \<longleftrightarrow>
     (\<exists>ds. strings_Split (os_Getenv env ''ALLOWED_DOMAINS'') CHR '','' = [] # ds)"
  by (auto simp: initConfig_def Let_def strings_Split_not_Nil split: list.splits)

section \<open>States that differ in empty mailboxes only\<close>




section \<open>The key of a delivered message\<close>

text \<open>
  Claim C1 as worded fails.  For the recipient \<open><alice@example.com>\<close> the
  local-part is \<open>alice\<close>; after \<open>handler\<close> has accepted the message the store has
  nothing under \<open>alice\<close>, the record is under \<open>alice@example.com\<close>, and
  \<open>GET /getMail/alice\<close> answers "no mail".
\<close>

theorem recipient_key_local_part_counterexample:
  "spec_recipientKey (To_String example_context) = ''alice'' \<and>
   fst (handler example_context 0 example_start) = None \<and>
   mailBox (snd (handler example_context 0 example_start))
     (spec_recipientKey (To_String example_context)) = None \<and>
   mailBox (snd (handler example_context 0 example_start)) ''alice@example.com''
     = Some [example_mail ''Welcome''] \<and>
   fst (handleGetMail ''alice'' (snd (handler example_context 0 example_start)))
     = no_mail_response"
  by (simp add: spec_recipientKey_def handler_def example_context_def example_start_def
      example_mail_def trim_alice trim_bob store_append_eq map_index_def handleGetMail_def
      pop_read_section_def Let_def)

text \<open>
  Claim C1, amended.  For every message whose parse succeeds, \<open>handler\<close> returns
  \<open>nil\<close> and appends the record under the key
  \<open>strings.Trim(c.To().String(), "<>")\<close>, the whole rendered recipient address
  (domain included) without its leading and trailing angle brackets; a retrieval with
  that key returns the record.  No other key of the store changes.
\<close>

theorem recipient_key_is_trimmed_address:
  assumes "Parse c = Inr msg"
  shows "handler c now g =
           (None, g\<lparr> mailBox := (mailBox g)(strings_Trim (To_String c) ''<>'' \<mapsto>
              map_index (mailBox g) (strings_Trim (To_String c) ''<>'') @
              [\<lparr> mail_from = strings_Trim (From_String c) ''<>'',
                 mail_to = strings_Trim (To_String c) ''<>'',
                 title = Subject msg, TextContent = TextBody msg, HtmlContent = HTMLBody msg,
                 receivedAt = now \<rparr>]) \<rparr>)
         \<and> fst (handleGetMail (strings_Trim (To_String c) ''<>'') (snd (handler c now g)))
           = mail_response \<lparr> mail_from = strings_Trim (From_String c) ''<>'',
                 mail_to = strings_Trim (To_String c) ''<>'',
                 title = Subject msg, TextContent = TextBody msg, HtmlContent = HTMLBody msg,
                 receivedAt = now \<rparr>"
proof -
  let ?to = "strings_Trim (To_String c) ''<>''"
  let ?content = "\<lparr> mail_from = strings_Trim (From_String c) ''<>'', mail_to = ?to,
                 title = Subject msg, TextContent = TextBody msg, HtmlContent = HTMLBody msg,
                 receivedAt = now \<rparr>"
  let ?g' = "g\<lparr> mailBox := (mailBox g)(?to \<mapsto> map_index (mailBox g) ?to @ [?content]) \<rparr>"
  have h: "handler c now g = (None, ?g')"
    using assms by (simp add: handler_def store_append_eq Let_def)
  have "mailBox ?g' ?to = Some (map_index (mailBox g) ?to @ [?content])" by simp
  from handleGetMail_last [OF this] have "fst (handleGetMail ?to ?g') = mail_response ?content"
    by simp
  with h show ?thesis by simp
qed

text \<open>
  The amended claim C1 at the example message.
\<close>

theorem recipient_key_is_trimmed_address_witness:
  "Parse example_context = Inr \<lparr> Subject = ''Welcome'', TextBody = ''hello'', HTMLBody = [] \<rparr> \<and>
   mailBox (snd (handler example_context 0 example_start)) ''alice@example.com''
     = Some [example_mail ''Welcome'']"
proof -
  have h: "Parse example_context = Inr \<lparr> Subject = ''Welcome'', TextBody = ''hello'', HTMLBody = [] \<rparr>"
    by (simp add: example_context_def)
  from recipient_key_is_trimmed_address [OF h, of 0 example_start] h show ?thesis
    by (simp add: example_context_def example_start_def example_mail_def trim_alice trim_bob
        map_index_def)
qed

section \<open>Retrieval order\<close>

text \<open>
  Claim C2 (LIFO retrieval order).  After the critical section of \<open>handler\<close> has
  appended \<open>m1\<close>, \<open>m2\<close>, \<open>m3\<close> under a key in this order and nothing else has
  run, the first three of four successive requests \<open>GET /getMail/{key}\<close> answer with
  \<open>m3\<close>, then \<open>m2\<close>, then \<open>m1\<close>; when the key held no message before the three
  were appended, the fourth answers with the empty response.
\<close>

theorem lifo_retrieval_order:
  "take 3 (fst (serve_all [GetMail k, GetMail k, GetMail k, GetMail k]
            (g\<lparr> mailBox := store_append k m3 (store_append k m2 (store_append k m1 (mailBox g))) \<rparr>)))
     = [HTTP (mail_response m3), HTTP (mail_response m2), HTTP (mail_response m1)]
   \<and> (mailBox g k = None \<or> mailBox g k = Some [] \<longrightarrow>
        fst (serve_all [GetMail k, GetMail k, GetMail k, GetMail k]
            (g\<lparr> mailBox := store_append k m3 (store_append k m2 (store_append k m1 (mailBox g))) \<rparr>))
          = [HTTP (mail_response m3), HTTP (mail_response m2), HTTP (mail_response m1),
             HTTP no_mail_response])"
proof -
  let ?old = "map_index (mailBox g) k"
  let ?g3 = "g\<lparr> mailBox := store_append k m3 (store_append k m2 (store_append k m1 (mailBox g))) \<rparr>"
  let ?g4 = "g\<lparr> mailBox := (mailBox g)(k \<mapsto> ?old @ [m1, m2]) \<rparr>"
  let ?g5 = "g\<lparr> mailBox := (mailBox g)(k \<mapsto> ?old @ [m1]) \<rparr>"
  let ?g6 = "g\<lparr> mailBox := (mailBox g)(k \<mapsto> ?old) \<rparr>"
  have s3: "mailBox ?g3 k = Some ((?old @ [m1, m2]) @ [m3])"
    by (simp add: store_append_eq map_index_upd)
  have p1: "handleGetMail k ?g3 = (mail_response m3, ?g4)"
    using handleGetMail_last [OF s3] by (simp add: store_append_eq map_index_upd)
  have s4: "mailBox ?g4 k = Some ((?old @ [m1]) @ [m2])" by simp
  have p2: "handleGetMail k ?g4 = (mail_response m2, ?g5)"
    using handleGetMail_last [OF s4] by simp
  have s5: "mailBox ?g5 k = Some (?old @ [m1])" by simp
  have p3: "handleGetMail k ?g5 = (mail_response m1, ?g6)"
    using handleGetMail_last [OF s5] by simp
  have first3: "take 3 (fst (serve_all [GetMail k, GetMail k, GetMail k, GetMail k] ?g3))
      = [HTTP (mail_response m3), HTTP (mail_response m2), HTTP (mail_response m1)]"
    by (simp add: p1 p2 p3 split_beta)
  have fourth: "fst (serve_all [GetMail k, GetMail k, GetMail k, GetMail k] ?g3)
      = [HTTP (mail_response m3), HTTP (mail_response m2), HTTP (mail_response m1),
         HTTP no_mail_response]"
    if "mailBox g k = None \<or> mailBox g k = Some []"
  proof -
    from that have old: "?old = []" by (auto simp: map_index_def)
    have "map_index (mailBox ?g6) k = []" by (simp add: map_index_upd old)
    then have "handleGetMail k ?g6 = (no_mail_response, ?g6)" by (rule handleGetMail_empty)
    then show ?thesis by (simp add: p1 p2 p3)
  qed
  from first3 fourth show ?thesis by blast
qed

text \<open>
  Claim C2 at three example messages for the key \<open>alice\<close>.
\<close>

theorem lifo_retrieval_order_witness:
  "(mailBox example_start ''alice'' = None \<or> mailBox example_start ''alice'' = Some []) \<and>
   fst (serve_all [GetMail ''alice'', GetMail ''alice'', GetMail ''alice'', GetMail ''alice'']
          (example_start\<lparr> mailBox := store_append ''alice'' (example_mail ''three'')
             (store_append ''alice'' (example_mail ''two'')
               (store_append ''alice'' (example_mail ''one'') (mailBox example_start))) \<rparr>))
     = [HTTP (mail_response (example_mail ''three'')), HTTP (mail_response (example_mail ''two'')),
        HTTP (mail_response (example_mail ''one'')), HTTP no_mail_response]"
proof -
  have h: "mailBox example_start ''alice'' = None \<or> mailBox example_start ''alice'' = Some []"
    by (simp add: example_start_def)
  from lifo_retrieval_order [where g = example_start and k = "''alice''"
      and ?m1.0 = "example_mail ''one''" and ?m2.0 = "example_mail ''two''"
      and ?m3.0 = "example_mail ''three''"] h
  show ?thesis by blast
qed

section \<open>Two retrievals racing on one message\<close>

text \<open>
  Claim C3 (no double delivery) against the code.  The mailbox of \<open>alice\<close> holds one
  message and two calls of \<open>handleGetMail\<close> run for that key.  When both calls pass
  their read-locked section before either enters its write-locked section, both answer
  200 with the same message: the write-locked section stores \<open>mails[:lastIndex]\<close>
  of the slice read earlier and does not look at the store again.
\<close>

theorem concurrent_pops_deliver_twice:
  "run_schedule [0, 1, 0, 1]
     ([Waiting ''alice'', Waiting ''alice''], [''alice'' \<mapsto> [example_mail ''Welcome'']])
   = ([Answered (mail_response (example_mail ''Welcome'')),
       Answered (mail_response (example_mail ''Welcome''))], [''alice'' \<mapsto> []])"
  by (simp add: pop_read_section_def pop_write_section_def)

section \<open>Retrieval from a key without mail\<close>

text \<open>
  Claim C4 (idempotent empty).  After every sequence of earlier requests, from every
  starting state, \<open>handleGetMail\<close> on a key that is missing from the store or mapped
  to the empty slice answers with status 201 and the "no mail" body, and leaves the
  globals as they were; \<open>handleGetMail\<close> has no other outcome than a response.
\<close>

theorem pop_on_empty_is_201:
  assumes "mailBox (snd (serve_all rqs g0)) k = None \<or> mailBox (snd (serve_all rqs g0)) k = Some []"
  shows "handleGetMail k (snd (serve_all rqs g0)) =
           (\<lparr> status = 201, body = JObject [''mail'' \<mapsto> JString no_mail_text] \<rparr>,
            snd (serve_all rqs g0))"
proof -
  from assms have "map_index (mailBox (snd (serve_all rqs g0))) k = []"
    by (auto simp: map_index_def)
  then show ?thesis
    by (simp add: handleGetMail_empty no_mail_response_def)
qed

text \<open>
  Claim C4 at a key emptied by a retrieval: one delivery, one retrieval, then the key is
  mapped to the empty slice.
\<close>

theorem pop_on_empty_is_201_witness:
  "(mailBox (snd (serve_all [Deliver example_context 0, GetMail ''alice@example.com''] example_start))
       ''alice@example.com'' = None \<or>
    mailBox (snd (serve_all [Deliver example_context 0, GetMail ''alice@example.com''] example_start))
       ''alice@example.com'' = Some []) \<and>
   fst (handleGetMail ''alice@example.com''
     (snd (serve_all [Deliver example_context 0, GetMail ''alice@example.com''] example_start))) =
   \<lparr> status = 201, body = JObject [''mail'' \<mapsto> JString no_mail_text] \<rparr>"
proof -
  have h: "mailBox (snd (serve_all [Deliver example_context 0, GetMail ''alice@example.com''] example_start))
       ''alice@example.com'' = None \<or>
    mailBox (snd (serve_all [Deliver example_context 0, GetMail ''alice@example.com''] example_start))
       ''alice@example.com'' = Some []"
    by (simp add: handler_def example_context_def example_start_def trim_alice trim_bob
        store_append_eq map_index_def handleGetMail_def pop_read_section_def pop_write_section_def
        Let_def)
  from pop_on_empty_is_201 [OF h] h show ?thesis by simp
qed

section \<open>Purge\<close>

text \<open>
  When no call of \<open>handleGetMail\<close> is between its two sections while
  \<open>clearMailBox\<close> runs, a retrieval after the purge answers with the empty response
  for every key, whether it was present before or not; the purge leaves the
  configuration and the response of \<open>GET /getAllowedDomains\<close> as they were.
\<close>

lemma purge_then_retrieval_in_sequence:
  "handleGetMail k (clearMailBox g) = (no_mail_response, clearMailBox g) \<and>
   getAllowedDomains (clearMailBox g) = getAllowedDomains g \<and>
   config (clearMailBox g) = config g"
  by (simp add: handleGetMail_empty clearMailBox_def map_index_def getAllowedDomains_def)

text \<open>
  Claim C5 (purge completeness) against the code.  The mailbox of \<open>alice\<close> holds the
  messages \<open>old\<close> and \<open>new\<close>.  A first call of \<open>handleGetMail\<close> passes its
  read-locked section, then \<open>clearMailBox\<close> runs, then the call's write-locked section
  stores \<open>mails[:lastIndex]\<close>, the slice holding \<open>old\<close>, into the new map.  A second
  call that starts after the purge, with no delivery in between, answers 200 with
  \<open>old\<close> and not with the empty response.  The allowed domains are unchanged.
\<close>

theorem purge_then_stale_write_revives_mail:
  "run_with_purge [RunCall 0, RunPurge, RunCall 0, RunCall 1, RunCall 1]
     ([Waiting ''alice'', Waiting ''alice''],
      example_start\<lparr> mailBox := [''alice'' \<mapsto> [example_mail ''old'', example_mail ''new'']] \<rparr>)
   = ([Answered (mail_response (example_mail ''new'')),
       Answered (mail_response (example_mail ''old''))],
      example_start\<lparr> mailBox := [''alice'' \<mapsto> []] \<rparr>)
   \<and> snd (run_with_purge [RunCall 0, RunPurge, RunCall 0]
        ([Waiting ''alice'', Waiting ''alice''],
         example_start\<lparr> mailBox := [''alice'' \<mapsto> [example_mail ''old'', example_mail ''new'']] \<rparr>))
   = example_start\<lparr> mailBox := [''alice'' \<mapsto> [example_mail ''old'']] \<rparr>"
  by (simp add: pop_read_section_def pop_write_section_def clearMailBox_def)

section \<open>The response for a found record\<close>

text \<open>
  Claim C6.  When the mailbox of the key is not empty, \<open>handleGetMail\<close> answers with
  status 200 and a \<open>mail\<close> object whose fields are exactly \<open>from\<close>, \<open>title\<close>,
  \<open>TextContent\<close> and \<open>HtmlContent\<close> of the newest record.  The response of
  \<open>handleGetMail\<close>, found or not, is the same whatever the fields \<open>to\<close> and
  \<open>receivedAt\<close> of the stored records are, and the response of
  \<open>GET /getAllowedDomains\<close> does not depend on the store at all.
\<close>

theorem found_mail_response_fields:
  "(mailBox g k = Some ms \<and> ms \<noteq> [] \<longrightarrow>
      fst (handleGetMail k g) =
           \<lparr> status = 200,
             body = JObject [''mail'' \<mapsto> JObject [''from'' \<mapsto> JString (mail_from (last ms)),
                                                     ''title'' \<mapsto> JString (title (last ms)),
                                                     ''TextContent'' \<mapsto> JString (TextContent (last ms)),
                                                     ''HtmlContent'' \<mapsto> JString (HtmlContent (last ms))]] \<rparr>)
   \<and> fst (handleGetMail k
            (g\<lparr> mailBox := map_option (map (\<lambda>m. m\<lparr> mail_to := t m, receivedAt := r m \<rparr>)) \<circ> mailBox g \<rparr>))
       = fst (handleGetMail k g)
   \<and> getAllowedDomains (g\<lparr> mailBox := mb' \<rparr>) = getAllowedDomains g"
proof (intro conjI)
  show "mailBox g k = Some ms \<and> ms \<noteq> [] \<longrightarrow>
      fst (handleGetMail k g) =
           \<lparr> status = 200,
             body = JObject [''mail'' \<mapsto> JObject [''from'' \<mapsto> JString (mail_from (last ms)),
                                                     ''title'' \<mapsto> JString (title (last ms)),
                                                     ''TextContent'' \<mapsto> JString (TextContent (last ms)),
                                                     ''HtmlContent'' \<mapsto> JString (HtmlContent (last ms))]] \<rparr>"
    by (simp add: handleGetMail_cases map_index_def mail_response_def)
next
  let ?f = "\<lambda>m. m\<lparr> mail_to := t m, receivedAt := r m \<rparr>"
  show "fst (handleGetMail k (g\<lparr> mailBox := map_option (map ?f) \<circ> mailBox g \<rparr>))
          = fst (handleGetMail k g)"
    by (simp add: handleGetMail_cases map_index_redact last_map mail_response_redact)
next
  show "getAllowedDomains (g\<lparr> mailBox := mb' \<rparr>) = getAllowedDomains g"
    by (simp add: getAllowedDomains_def)
qed

text \<open>
  Claim C6 at a mailbox holding the example message.
\<close>

theorem found_mail_response_fields_witness:
  "(mailBox (example_start\<lparr> mailBox := [''alice'' \<mapsto> [example_mail ''Welcome'']] \<rparr>) ''alice''
     = Some [example_mail ''Welcome''] \<and> [example_mail ''Welcome''] \<noteq> []) \<and>
   fst (handleGetMail ''alice'' (example_start\<lparr> mailBox := [''alice'' \<mapsto> [example_mail ''Welcome'']] \<rparr>)) =
     \<lparr> status = 200,
       body = JObject [''mail'' \<mapsto> JObject [''from'' \<mapsto> JString ''bob@example.org'',
                                               ''title'' \<mapsto> JString ''Welcome'',
                                               ''TextContent'' \<mapsto> JString ''hello'',
                                               ''HtmlContent'' \<mapsto> JString []]] \<rparr>"
proof -
  have h: "mailBox (example_start\<lparr> mailBox := [''alice'' \<mapsto> [example_mail ''Welcome'']] \<rparr>) ''alice''
     = Some [example_mail ''Welcome''] \<and> [example_mail ''Welcome''] \<noteq> []" by simp
  from found_mail_response_fields [of "example_start\<lparr> mailBox := [''alice'' \<mapsto> [example_mail ''Welcome'']] \<rparr>"
      "''alice''" "[example_mail ''Welcome'']"] h
  show ?thesis
    by (simp add: example_mail_def)
qed

section \<open>Startup configuration\<close>

text \<open>
  Claim C7 as worded fails: with \<open>ALLOWED_DOMAINS=,example.com\<close> the variable is set
  and not empty, and \<open>initConfig\<close> ends the process all the same.
\<close>

theorem config_set_but_fatal_counterexample:
  "[''ALLOWED_DOMAINS'' \<mapsto> '',example.com''] ''ALLOWED_DOMAINS'' = Some '',example.com'' \<and>
   os_Getenv [''ALLOWED_DOMAINS'' \<mapsto> '',example.com''] ''ALLOWED_DOMAINS'' \<noteq> [] \<and>
   initConfig [''ALLOWED_DOMAINS'' \<mapsto> '',example.com''] = Inl LogFatal"
  by (simp add: initConfig_def os_Getenv_def)

text \<open>
  Claim C7, amended.  \<open>initConfig\<close> ends the process if and only if the value of
  \<open>ALLOWED_DOMAINS\<close> is empty (which includes the variable not being set) or begins
  with a comma, that is, if and only if its first comma-separated element is empty.
  When \<open>initConfig\<close> returns a configuration, its list of allowed domains has a
  first element and that element is not the empty string.
\<close>

theorem startup_fatal_iff_first_domain_empty:
  "(initConfig env = Inl LogFatal \<longleftrightarrow>
      (os_Getenv env ''ALLOWED_DOMAINS'' = [] \<or>
       (\<exists>rest. os_Getenv env ''ALLOWED_DOMAINS'' = CHR '','' # rest)))
   \<and> (env ''ALLOWED_DOMAINS'' = None \<or> env ''ALLOWED_DOMAINS'' = Some [] \<longrightarrow>
        initConfig env = Inl LogFatal)
   \<and> (\<forall>cfg. initConfig env = Inr cfg \<longrightarrow>
        (\<exists>d ds. AllowedDomains cfg = d # ds \<and> d \<noteq> []))"
proof (intro conjI)
  show "initConfig env = Inl LogFatal \<longleftrightarrow>
      (os_Getenv env ''ALLOWED_DOMAINS'' = [] \<or>
       (\<exists>rest. os_Getenv env ''ALLOWED_DOMAINS'' = CHR '','' # rest))"
    by (simp only: initConfig_fatal_iff strings_Split_first_empty)
  then show "env ''ALLOWED_DOMAINS'' = None \<or> env ''ALLOWED_DOMAINS'' = Some [] \<longrightarrow>
        initConfig env = Inl LogFatal"
    by (auto simp: os_Getenv_def)
  show "\<forall>cfg. initConfig env = Inr cfg \<longrightarrow> (\<exists>d ds. AllowedDomains cfg = d # ds \<and> d \<noteq> [])"
    by (auto simp: initConfig_def Let_def split: list.splits if_splits)
qed

text \<open>
  The amended claim C7 at an unset variable and at a list of two domains.
\<close>

theorem startup_fatal_iff_first_domain_empty_witness:
  "(Map.empty ''ALLOWED_DOMAINS'' = (None :: string option) \<and> initConfig Map.empty = Inl LogFatal) \<and>
   (initConfig [''ALLOWED_DOMAINS'' \<mapsto> ''example.com,example.org''] =
      Inr \<lparr> AllowedDomains = [''example.com'', ''example.org''], SMTPPort = ''25'', HTTPPort = ''80'',
            HTTPSPort = ''443'', CertFile = ''./certs/server.pem'', KeyFile = ''./certs/server.key'',
            EnableHTTPS = False \<rparr> \<and>
    (\<exists>d ds. [''example.com'', ''example.org''] = d # ds \<and> d \<noteq> []))"
proof -
  have a: "initConfig [''ALLOWED_DOMAINS'' \<mapsto> ''example.com,example.org''] =
      Inr \<lparr> AllowedDomains = [''example.com'', ''example.org''], SMTPPort = ''25'', HTTPPort = ''80'',
            HTTPSPort = ''443'', CertFile = ''./certs/server.pem'', KeyFile = ''./certs/server.key'',
            EnableHTTPS = False \<rparr>"
    by (simp add: initConfig_def os_Getenv_def getEnvOrDefault_def)
  have b: "Map.empty ''ALLOWED_DOMAINS'' = (None :: string option)" by simp
  from startup_fatal_iff_first_domain_empty [of Map.empty] b
  have c: "initConfig Map.empty = Inl LogFatal" by blast
  from startup_fatal_iff_first_domain_empty [of "[''ALLOWED_DOMAINS'' \<mapsto> ''example.com,example.org'']"] a
  have d: "\<exists>d ds. [''example.com'', ''example.org''] = d # ds \<and> d \<noteq> []"
    by simp
  from a b c d show ?thesis by blast
qed

section \<open>Parse failure\<close>

text \<open>
  Claim C8.  When \<open>c.Parse()\<close> fails, \<open>handler\<close> returns that error to its caller
  and the globals, the mailbox store among them, are exactly what they were.
\<close>

theorem parse_failure_no_mutation:
  "Parse c = Inl err \<Longrightarrow> handler c now g = (Some err, g)"
  by (simp add: handler_def)

text \<open>
  Claim C8 at a message whose parse fails.
\<close>

theorem parse_failure_no_mutation_witness:
  "Parse example_broken_context = Inl (Error ''malformed MIME header'') \<and>
   handler example_broken_context 0 example_start = (Some (Error ''malformed MIME header''), example_start)"
proof -
  have h: "Parse example_broken_context = Inl (Error ''malformed MIME header'')"
    by (simp add: example_broken_context_def)
  from parse_failure_no_mutation [OF h] h show ?thesis by simp
qed

section \<open>A key mapped to the empty slice\<close>



section \<open>An empty first domain\<close>

text \<open>
  Claim C10.  Whenever the value of \<open>ALLOWED_DOMAINS\<close> begins with a comma, whatever
  follows, \<open>initConfig\<close> ends the process.  The value \<open>,example.com\<close> is such a
  value: it splits into the empty string and the domain \<open>example.com\<close>.
\<close>

theorem first_domain_empty_is_fatal:
  "initConfig (env(''ALLOWED_DOMAINS'' \<mapsto> CHR '','' # rest)) = Inl LogFatal \<and>
   strings_Split '',example.com'' CHR '','' = [[], ''example.com''] \<and>
   initConfig [''ALLOWED_DOMAINS'' \<mapsto> '',example.com''] = Inl LogFatal"
  by (simp add: initConfig_def os_Getenv_def)

end
